theory Spec2Isabelle
  imports Main
begin

section \<open>Errors raised by the API views\<close>

text \<open>
  The exceptions of \<^verbatim>\<open>openwisp_radius/api/views.py\<close> as values. \<open>ValidationError\<close> is
  the one of the REST framework that the views import and raise, with its dictionary of
  messages per field. A Django \<^verbatim>\<open>objects.get\<close> raises \<open>DoesNotExist\<close>,
  \<open>MultipleObjectsReturned\<close>, or, for a lookup value that its column cannot convert,
  \<^verbatim>\<open>django.core.exceptions.ValidationError\<close>, here \<open>CoreValidationError\<close> with the
  value refused.
\<close>

datatype error =
    AuthenticationFailed string
  | ParseError string
  | ValidationError "(string \<times> string list) list"
  | Http404
  | DoesNotExist
  | MultipleObjectsReturned
  | CoreValidationError string

definition TOKEN_AUTH_FAILED :: string where
  "TOKEN_AUTH_FAILED = ''Token authentication failed''"

section \<open>Requests, the organization settings table and the token cache\<close>

text \<open>
  A request as \<^verbatim>\<open>TokenAuthentication\<close> reads it: the body \<^verbatim>\<open>request.data\<close>, the query
  parameters \<^verbatim>\<open>request.GET\<close> and the headers \<^verbatim>\<open>request.META\<close>, each a dictionary
  from strings to strings.
\<close>

record request =
  data :: "string \<rightharpoonup> string"
  GET :: "string \<rightharpoonup> string"
  META :: "string \<rightharpoonup> string"

text \<open>
  A row of \<^verbatim>\<open>OrganizationRadiusSettings\<close>. The model class is declared outside the two
  source files; the view reads three attributes of it: \<^verbatim>\<open>pk\<close>, \<^verbatim>\<open>organization\<close>
  (the lookup key of \<^verbatim>\<open>objects.get\<close>) and \<^verbatim>\<open>token\<close>. The two identifiers are UUIDs;
  a row holds each in its canonical spelling, the one \<^verbatim>\<open>str\<close> gives and the one under
  which \<^verbatim>\<open>cache.set(instance.pk, ...)\<close> files its entry.
\<close>

record OrganizationRadiusSettings =
  pk :: string
  organization :: string
  token :: string

text \<open>
  The effects of an authentication, in the order they happen: reads and writes of
  \<^verbatim>\<open>django.core.cache.cache\<close> and calls of \<^verbatim>\<open>objects.get\<close> on the settings table.
\<close>

datatype event =
    CacheGet string
  | CacheSet string string
  | SettingsGet string string

record state =
  cache :: "string \<rightharpoonup> string"
  trace :: "event list"

text \<open>
  The identity \<^verbatim>\<open>authenticate\<close> returns: the caller is a verified organization, not a
  user, so it is always \<^verbatim>\<open>AnonymousUser()\<close>.
\<close>

datatype identity = AnonymousUser

text \<open>Python truthiness of a value that is \<^verbatim>\<open>None\<close> or a string.\<close>

fun falsy :: "string option \<Rightarrow> bool" where
  "falsy None = True"
| "falsy (Some s) = (s = [])"

text \<open>
  \<^verbatim>\<open>cache.get(key)\<close>: the cached value, or \<^verbatim>\<open>None\<close>. The cache is shared by the
  whole process and its entries expire, so an authentication may start from any cache.
\<close>

definition cache_get :: "string \<Rightarrow> state \<Rightarrow> string option \<times> state" where
  "cache_get key s = (cache s key, s\<lparr>trace := trace s @ [CacheGet key]\<rparr>)"

text \<open>\<^verbatim>\<open>cache.set(key, value)\<close>.\<close>

definition cache_set :: "string \<Rightarrow> string \<Rightarrow> state \<Rightarrow> state" where
  "cache_set key v s = s\<lparr>cache := (cache s)(key \<mapsto> v), trace := trace s @ [CacheSet key v]\<rparr>"

text \<open>
  \<^verbatim>\<open>OrganizationRadiusSettings.objects.get(organization=uuid, token=token)\<close>. The
  \<^verbatim>\<open>uuid\<close> is the string of the request. The UUID column converts it first: the
  conversion \<open>to_python\<close> belongs to the framework and is a parameter, giving \<open>None\<close> for
  a string that is no UUID (the lookup then raises the \<open>CoreValidationError\<close>) and
  otherwise the canonical spelling of the value, so that every spelling of a UUID finds
  the same rows. The tokens are compared as strings. Then: the one matching row,
  \<open>DoesNotExist\<close> when there is none, \<open>MultipleObjectsReturned\<close> when there are several;
  the table is a list of rows, so that nothing about the uniqueness of a column is built
  in. The event \<open>SettingsGet\<close> records the call with its arguments.
\<close>

definition objects_get ::
  "(string \<Rightarrow> string option) \<Rightarrow> OrganizationRadiusSettings list \<Rightarrow> string \<Rightarrow> string \<Rightarrow>
     state \<Rightarrow> (error + OrganizationRadiusSettings) \<times> state" where
  "objects_get to_python rows uuid tok s =
     ((case to_python uuid of
         None \<Rightarrow> Inl (CoreValidationError uuid)
       | Some u \<Rightarrow>
           (case filter (\<lambda>r. organization r = u \<and> token r = tok) rows of
              [] \<Rightarrow> Inl DoesNotExist
            | [r] \<Rightarrow> Inr r
            | _ \<Rightarrow> Inl MultipleObjectsReturned)),
      s\<lparr>trace := trace s @ [SettingsGet uuid tok]\<rparr>)"

section \<open>TokenAuthentication\<close>

text \<open>
  \<^verbatim>\<open>str.split(sep)\<close> with a one-character separator: every occurrence of the separator
  ends a part, so the result is never empty and adjacent separators give empty parts.
  A character other than the separator joins the first part of the rest; the rest is
  never the empty list, so the first branch of the \<open>case\<close> is not reached.
\<close>

fun str_split :: "char \<Rightarrow> string \<Rightarrow> string list" where
  "str_split sep [] = [[]]"
| "str_split sep (c # cs) =
     (if c = sep then [] # str_split sep cs
      else (case str_split sep cs of
              [] \<Rightarrow> [[c]]
            | p # ps \<Rightarrow> (c # p) # ps))"

text \<open>\<^verbatim>\<open>parts[i]\<close>, with \<open>None\<close> for the \<^verbatim>\<open>IndexError\<close>.\<close>

definition index :: "'a list \<Rightarrow> nat \<Rightarrow> 'a option" where
  "index xs i = (if i < length xs then Some (xs ! i) else None)"

text \<open>\<^verbatim>\<open>TokenAuthentication.check_organization\<close>\<close>

definition check_organization :: "request \<Rightarrow> error + unit" where
  "check_organization req =
     (if data req ''organization'' \<noteq> None
      then Inl (AuthenticationFailed
                  ''setting the organization parameter explicitly is not allowed'')
      else Inr ())"

text \<open>\<^verbatim>\<open>TokenAuthentication.get_uuid_token\<close>\<close>

definition get_uuid_token :: "request \<Rightarrow> error + (string option \<times> string option)" where
  "get_uuid_token req =
     (let uuid = GET req ''uuid'';
          tok = GET req ''token''
      in case META req ''HTTP_AUTHORIZATION'' of
           None \<Rightarrow> Inr (uuid, tok)
         | Some h \<Rightarrow>
             (let parts = str_split (CHR '' '') h
              in case index parts 1 of
                   None \<Rightarrow> Inl (ParseError ''Invalid token'')
                 | Some u \<Rightarrow>
                     (case index parts 2 of
                        None \<Rightarrow> Inl (ParseError ''Invalid token'')
                      | Some t \<Rightarrow> Inr (Some u, Some t))))"

text \<open>
  \<^verbatim>\<open>TokenAuthentication.authenticate\<close>. The first cache read is of the literal key
  \<^verbatim>\<open>'uuid'\<close>, and the cache is written under the \<^verbatim>\<open>pk\<close> of the row found, as in the
  source. The \<^verbatim>\<open>except\<close> clause names \<open>DoesNotExist\<close> alone: every other error of
  the lookup propagates.
\<close>

definition authenticate ::
  "(string \<Rightarrow> string option) \<Rightarrow> OrganizationRadiusSettings list \<Rightarrow> request \<Rightarrow> state \<Rightarrow>
     (error + (identity \<times> string)) \<times> state" where
  "authenticate to_python rows req s =
     (case check_organization req of
        Inl e \<Rightarrow> (Inl e, s)
      | Inr _ \<Rightarrow>
     (case get_uuid_token req of
        Inl e \<Rightarrow> (Inl e, s)
      | Inr (uuid, tok) \<Rightarrow>
          if falsy uuid \<or> falsy tok then (Inl (AuthenticationFailed TOKEN_AUTH_FAILED), s)
          else
            (case cache_get ''uuid'' s of (sentinel, s1) \<Rightarrow>
               if falsy sentinel then
                 (case objects_get to_python rows (the uuid) (the tok) s1 of
                    (Inl e, s2) \<Rightarrow>
                      if e = DoesNotExist then (Inl (AuthenticationFailed TOKEN_AUTH_FAILED), s2)
                      else (Inl e, s2)
                  | (Inr instance, s2) \<Rightarrow>
                      (Inr (AnonymousUser, the uuid), cache_set (pk instance) (token instance) s2))
               else
                 (case cache_get (the uuid) s1 of (cached, s2) \<Rightarrow>
                    if cached \<noteq> tok then (Inl (AuthenticationFailed TOKEN_AUTH_FAILED), s2)
                    else (Inr (AnonymousUser, the uuid), s2)))))"

section \<open>Views scoped by the authenticated organization\<close>

text \<open>
  After a successful authentication the framework stores the second component of the pair
  returned by \<^verbatim>\<open>authenticate\<close> in \<^verbatim>\<open>request.auth\<close>.
\<close>

record authenticated_request = request +
  auth :: string

text \<open>
  A user as the views read it: its primary key, \<^verbatim>\<open>username\<close>, and
  \<^verbatim>\<open>organizations_pk\<close>, the primary keys of its organizations (a sequence of
  one-element tuples in the source).
\<close>

record User =
  user_pk :: string
  username :: string
  organizations_pk :: "string list"

text \<open>A membership row of \<^verbatim>\<open>OrganizationUser\<close>, by its two foreign-key columns.\<close>

record OrganizationUser =
  user_id :: string
  organization_id :: string

text \<open>
  \<^verbatim>\<open>AuthorizeView.get_user\<close>. The lookup of the base class,
  \<^verbatim>\<open>super().get_user(request)\<close>, belongs to another package and is a parameter. A model
  instance is always truthy, so \<^verbatim>\<open>if user\<close> tests for \<^verbatim>\<open>None\<close>;
  \<^verbatim>\<open>filter(...).exists()\<close> holds when some row matches.
\<close>

definition get_user ::
  "(authenticated_request \<Rightarrow> User option) \<Rightarrow> OrganizationUser list \<Rightarrow>
     authenticated_request \<Rightarrow> User option" where
  "get_user super_get_user org_users req =
     (case super_get_user req of
        None \<Rightarrow> None
      | Some u \<Rightarrow>
          if filter (\<lambda>m. user_id m = user_pk u \<and> organization_id m = auth req) org_users = []
          then None
          else Some u)"

text \<open>An accounting row, by its session identifier and its organization.\<close>

record RadiusAccounting =
  unique_id :: string
  acct_organization :: string

text \<open>
  \<^verbatim>\<open>AccountingView.get_queryset\<close>: the queryset of the base class (a parameter),
  filtered by \<^verbatim>\<open>organization=self.request.auth\<close>.
\<close>

definition get_queryset ::
  "RadiusAccounting list \<Rightarrow> authenticated_request \<Rightarrow> RadiusAccounting list" where
  "get_queryset super_get_queryset req =
     filter (\<lambda>r. acct_organization r = auth req) super_get_queryset"

section \<open>Views addressed by organization slug\<close>

record Organization =
  org_pk :: string
  slug :: string

text \<open>A row of \<^verbatim>\<open>rest_framework.authtoken.models.Token\<close>: its key and its user.\<close>

record Token =
  key :: string
  token_user :: string

text \<open>
  The tables the slug-addressed views read and write, and the messages given to
  \<^verbatim>\<open>logger.warning\<close>.
\<close>

record database =
  organizations :: "Organization list"
  organization_users :: "OrganizationUser list"
  tokens :: "Token list"
  warnings :: "string list"

text \<open>
  \<^verbatim>\<open>DispatchOrgMixin.dispatch\<close>, up to the call of the base class:
  \<^verbatim>\<open>Organization.objects.get(slug=kwargs['slug'])\<close>, with \<^verbatim>\<open>DoesNotExist\<close> turned
  into \<^verbatim>\<open>Http404\<close>.
\<close>

definition dispatch :: "Organization list \<Rightarrow> string \<Rightarrow> error + Organization" where
  "dispatch orgs slug_kwarg =
     (case filter (\<lambda>org. slug org = slug_kwarg) orgs of
        [] \<Rightarrow> Inl Http404
      | [org] \<Rightarrow> Inr org
      | _ \<Rightarrow> Inl MultipleObjectsReturned)"

text \<open>
  \<^verbatim>\<open>Organization.add_user\<close> comes from the organizations package: it creates the
  \<^verbatim>\<open>OrganizationUser\<close> row of the user and the organization.
\<close>

definition add_user :: "Organization \<Rightarrow> User \<Rightarrow> database \<Rightarrow> database" where
  "add_user org u db =
     db\<lparr>organization_users :=
          organization_users db @ [\<lparr>user_id = user_pk u, organization_id = org_pk org\<rparr>]\<rparr>"

text \<open>
  \<^verbatim>\<open>RegisterView.perform_create\<close>. The creation of the user by the base class,
  \<^verbatim>\<open>super().perform_create(serializer)\<close>, is a parameter: it may raise, and it may
  change the database.
\<close>

definition perform_create ::
  "Organization \<Rightarrow> (database \<Rightarrow> (error + User) \<times> database) \<Rightarrow> database \<Rightarrow>
     (error + User) \<times> database" where
  "perform_create org super_perform_create db =
     (case super_perform_create db of
        (Inl e, db1) \<Rightarrow> (Inl e, db1)
      | (Inr u, db1) \<Rightarrow> (Inr u, add_user org u db1))"

text \<open>
  The registration view as far as the creation of the user: \<^verbatim>\<open>dispatch\<close> resolves the
  organization, then the base class reaches \<^verbatim>\<open>perform_create\<close>.
\<close>

definition register ::
  "(database \<Rightarrow> (error + User) \<times> database) \<Rightarrow> string \<Rightarrow> database \<Rightarrow>
     (error + User) \<times> database" where
  "register super_perform_create slug_kwarg db =
     (case dispatch (organizations db) slug_kwarg of
        Inl e \<Rightarrow> (Inl e, db)
      | Inr org \<Rightarrow> perform_create org super_perform_create db)"

text \<open>
  \<^verbatim>\<open>Token.objects.get_or_create(user=user)\<close>: the token of the user, created with a
  fresh key when there is none.
\<close>

definition get_or_create :: "string \<Rightarrow> User \<Rightarrow> database \<Rightarrow> (error + Token) \<times> database" where
  "get_or_create new_key u db =
     (case filter (\<lambda>t. token_user t = user_pk u) (tokens db) of
        [] \<Rightarrow> (Inr \<lparr>key = new_key, token_user = user_pk u\<rparr>,
               db\<lparr>tokens := tokens db @ [\<lparr>key = new_key, token_user = user_pk u\<rparr>]\<rparr>)
      | [t] \<Rightarrow> (Inr t, db)
      | _ \<Rightarrow> (Inl MultipleObjectsReturned, db))"

text \<open>
  The message of \<^verbatim>\<open>AuthTokenSerializer\<close> (of the REST framework) for credentials that
  do not log in.
\<close>

definition UNABLE_TO_LOG_IN :: string where
  "UNABLE_TO_LOG_IN = ''Unable to log in with provided credentials.''"

text \<open>
  \<^verbatim>\<open>ObtainAuthTokenView.post\<close>. The validation by \<^verbatim>\<open>AuthTokenSerializer\<close> is a
  parameter: a \<open>ValidationError\<close>, or the user of \<^verbatim>\<open>validated_data\<close>. The response
  carries the serialized token. \<open>CHR 0x22\<close> is the double quote of the message.
\<close>

definition post ::
  "Organization \<Rightarrow> (request \<Rightarrow> error + User) \<Rightarrow> string \<Rightarrow> request \<Rightarrow> string \<Rightarrow> database \<Rightarrow>
     (error + Token) \<times> database" where
  "post org AuthTokenSerializer new_key req slug_kwarg db =
     (case AuthTokenSerializer req of
        Inl e \<Rightarrow> (Inl e, db)
      | Inr u \<Rightarrow>
          if org_pk org \<notin> set (organizations_pk u) then
            (let message = ''User '' @ [CHR 0x22] @ username u @ [CHR 0x22] @
                           '' is not member of '' @ [CHR 0x22] @ slug_kwarg @ [CHR 0x22]
             in (Inl (ValidationError [(''non_field_errors'', [message])]),
                 db\<lparr>warnings := warnings db @ [message]\<rparr>))
          else get_or_create new_key u db)"

text \<open>The token view: \<^verbatim>\<open>dispatch\<close>, then \<^verbatim>\<open>post\<close>.\<close>

definition obtain_auth_token ::
  "(request \<Rightarrow> error + User) \<Rightarrow> string \<Rightarrow> request \<Rightarrow> string \<Rightarrow> database \<Rightarrow>
     (error + Token) \<times> database" where
  "obtain_auth_token AuthTokenSerializer new_key req slug_kwarg db =
     (case dispatch (organizations db) slug_kwarg of
        Inl e \<Rightarrow> (Inl e, db)
      | Inr org \<Rightarrow> post org AuthTokenSerializer new_key req slug_kwarg db)"

section \<open>Data of the examples\<close>

text \<open>
  Two organizations, the primary keys of their settings rows, and the conversion of the
  UUID column at the spellings the examples present: the canonical ones, and the first
  organization in upper case. Every other string of the examples is too short for a UUID
  in any spelling.
\<close>

abbreviation org_1 :: string where
  "org_1 \<equiv> ''11111111-aaaa-4111-8111-111111111111''"

abbreviation org_1_upper :: string where
  "org_1_upper \<equiv> ''11111111-AAAA-4111-8111-111111111111''"

abbreviation org_2 :: string where
  "org_2 \<equiv> ''22222222-bbbb-4222-8222-222222222222''"

abbreviation pk_1 :: string where
  "pk_1 \<equiv> ''0a0a0a0a-1111-4aaa-8aaa-aaaaaaaaaaaa''"

abbreviation pk_2 :: string where
  "pk_2 \<equiv> ''0b0b0b0b-2222-4bbb-8bbb-bbbbbbbbbbbb''"

abbreviation example_to_python :: "string \<Rightarrow> string option" where
  "example_to_python \<equiv> [org_1 \<mapsto> org_1, org_1_upper \<mapsto> org_1, org_2 \<mapsto> org_2]"

abbreviation settings_1 :: OrganizationRadiusSettings where
  "settings_1 \<equiv> \<lparr>pk = pk_1, organization = org_1, token = ''secret1''\<rparr>"

abbreviation settings_2 :: OrganizationRadiusSettings where
  "settings_2 \<equiv> \<lparr>pk = pk_2, organization = org_2, token = ''secret2''\<rparr>"

section \<open>The branches of authenticate\<close>

text \<open>
  One lemma per path through \<^verbatim>\<open>authenticate\<close>: the explicit organization field, the
  error of the header parser, missing credentials, the query of the settings table (taken
  when the cache has nothing truthy under the literal key \<^verbatim>\<open>'uuid'\<close>) and the
  comparison with the cached token (taken otherwise).
\<close>

lemma str_split_not_Nil: "str_split sep s \<noteq> []"
  by (induction s) (auto split: list.splits)

lemma authenticate_explicit_organization:
  assumes "data req ''organization'' \<noteq> None"
  shows "authenticate to_python rows req s =
    (Inl (AuthenticationFailed ''setting the organization parameter explicitly is not allowed''), s)"
  using assms by (simp add: authenticate_def check_organization_def)

lemma authenticate_parse_error:
  assumes "data req ''organization'' = None"
    and "get_uuid_token req = Inl e"
  shows "authenticate to_python rows req s = (Inl e, s)"
  using assms by (simp add: authenticate_def check_organization_def)

lemma authenticate_missing:
  assumes "data req ''organization'' = None"
    and "get_uuid_token req = Inr (uuid, tok)"
    and "falsy uuid \<or> falsy tok"
  shows "authenticate to_python rows req s = (Inl (AuthenticationFailed TOKEN_AUTH_FAILED), s)"
  using assms by (simp add: authenticate_def check_organization_def)

lemma authenticate_cold:
  assumes "data req ''organization'' = None"
    and "get_uuid_token req = Inr (Some uuid, Some tok)"
    and "uuid \<noteq> []" and "tok \<noteq> []"
    and "falsy (cache s ''uuid'')"
  shows "authenticate to_python rows req s =
     (case objects_get to_python rows uuid tok (s\<lparr>trace := trace s @ [CacheGet ''uuid'']\<rparr>) of
        (Inl e, s2) \<Rightarrow>
          if e = DoesNotExist then (Inl (AuthenticationFailed TOKEN_AUTH_FAILED), s2)
          else (Inl e, s2)
      | (Inr instance, s2) \<Rightarrow>
          (Inr (AnonymousUser, uuid), cache_set (pk instance) (token instance) s2))"
  using assms
  by (simp add: authenticate_def check_organization_def cache_get_def
        split: prod.splits sum.splits)

lemma authenticate_warm:
  assumes "data req ''organization'' = None"
    and "get_uuid_token req = Inr (Some uuid, Some tok)"
    and "uuid \<noteq> []" and "tok \<noteq> []"
    and "\<not> falsy (cache s ''uuid'')"
  shows "authenticate to_python rows req s =
     (if cache s uuid \<noteq> Some tok
      then (Inl (AuthenticationFailed TOKEN_AUTH_FAILED),
            s\<lparr>trace := trace s @ [CacheGet ''uuid'', CacheGet uuid]\<rparr>)
      else (Inr (AnonymousUser, uuid),
            s\<lparr>trace := trace s @ [CacheGet ''uuid'', CacheGet uuid]\<rparr>))"
  using assms by (simp add: authenticate_def check_organization_def cache_get_def)

text \<open>
  Whenever the cache has nothing truthy under the literal key \<^verbatim>\<open>'uuid'\<close>,
  \<^verbatim>\<open>objects.get\<close> is called, whatever the cache holds for the organization itself.
\<close>

lemma cold_sentinel_queries_settings:
  assumes "data req ''organization'' = None"
    and "get_uuid_token req = Inr (Some uuid, Some tok)"
    and "uuid \<noteq> []" and "tok \<noteq> []"
    and "falsy (cache s ''uuid'')"
  shows "SettingsGet uuid tok \<in> set (trace (snd (authenticate to_python rows req s)))"
  by (simp add: authenticate_cold [OF assms] objects_get_def cache_set_def
        split: list.splits option.splits)

section \<open>The organization token\<close>

text \<open>
  A request presents an identifier and a token; the token is neither the value cached
  under the identifier nor the token of a settings row of the organization the identifier
  converts to. Nothing is assumed about other organizations. Then \<^verbatim>\<open>authenticate\<close> never
  accepts: it raises \<open>AuthenticationFailed\<close>, or the \<open>CoreValidationError\<close> of the lookup
  for an identifier that is no UUID.
\<close>

lemma authenticate_never_accepts_wrong_token:
  assumes "get_uuid_token req = Inr (Some uuid, Some tok)"
    and "cache s uuid \<noteq> Some tok"
    and "\<forall>u. to_python uuid = Some u \<longrightarrow>
           (\<forall>r \<in> set rows. organization r = u \<longrightarrow> token r \<noteq> tok)"
  shows "(\<exists>msg. fst (authenticate to_python rows req s) = Inl (AuthenticationFailed msg)) \<or>
         (to_python uuid = None \<and>
          fst (authenticate to_python rows req s) = Inl (CoreValidationError uuid))"
proof (cases "data req ''organization'' = None")
  case False
  then show ?thesis by (simp add: authenticate_explicit_organization)
next
  case no_org: True
  show ?thesis
  proof (cases "uuid = [] \<or> tok = []")
    case True
    then have "falsy (Some uuid) \<or> falsy (Some tok)" by simp
    from authenticate_missing [OF no_org assms(1) this] show ?thesis by simp
  next
    case False
    then have ne: "uuid \<noteq> []" "tok \<noteq> []" by simp_all
    show ?thesis
    proof (cases "falsy (cache s ''uuid'')")
      case cold: True
      show ?thesis
      proof (cases "to_python uuid")
        case None
        then show ?thesis
          by (simp add: authenticate_cold [OF no_org assms(1) ne cold] objects_get_def)
      next
        case (Some u)
        then have "filter (\<lambda>r. organization r = u \<and> token r = tok) rows = []"
          using assms(3) by (auto simp: filter_empty_conv)
        with Some show ?thesis
          by (simp add: authenticate_cold [OF no_org assms(1) ne cold] objects_get_def)
      qed
    next
      case False
      show ?thesis
        using assms(2) by (simp add: authenticate_warm [OF no_org assms(1) ne False])
    qed
  qed
qed

text \<open>For an identifier that is a UUID the outcome is \<open>AuthenticationFailed\<close>.\<close>

lemma authenticate_rejects_wrong_token_of_uuid:
  assumes "get_uuid_token req = Inr (Some uuid, Some tok)"
    and "cache s uuid \<noteq> Some tok"
    and "to_python uuid = Some u"
    and "\<forall>r \<in> set rows. organization r = u \<longrightarrow> token r \<noteq> tok"
  shows "\<exists>msg. fst (authenticate to_python rows req s) = Inl (AuthenticationFailed msg)"
  using authenticate_never_accepts_wrong_token [OF assms(1,2), of to_python rows] assms(3,4)
  by auto

text \<open>
  The token of the second organization, valid there and cached there, is refused for the
  first one, in either spelling of its identifier.
\<close>

lemma cross_tenant_token_rejected:
  "fst (authenticate example_to_python [settings_1, settings_2]
          \<lparr>data = Map.empty, GET = [''uuid'' \<mapsto> org_1, ''token'' \<mapsto> ''secret2''], META = Map.empty\<rparr>
          \<lparr>cache = [org_1 \<mapsto> ''secret1'', org_2 \<mapsto> ''secret2''], trace = []\<rparr>)
     = Inl (AuthenticationFailed TOKEN_AUTH_FAILED)"
  "fst (authenticate example_to_python [settings_1, settings_2]
          \<lparr>data = Map.empty, GET = [''uuid'' \<mapsto> org_1_upper, ''token'' \<mapsto> ''secret2''], META = Map.empty\<rparr>
          \<lparr>cache = [org_1 \<mapsto> ''secret1'', org_2 \<mapsto> ''secret2''], trace = []\<rparr>)
     = Inl (AuthenticationFailed TOKEN_AUTH_FAILED)"
  by (simp_all add: authenticate_def check_organization_def get_uuid_token_def cache_get_def
        objects_get_def)

text \<open>
  The conversion makes every spelling of an identifier find the same row: the valid pair
  of the first organization is accepted in upper case too, and the identifier is returned
  as the request spelled it.
\<close>

lemma other_spelling_accepted:
  "authenticate example_to_python [settings_1, settings_2]
      \<lparr>data = Map.empty, GET = [''uuid'' \<mapsto> org_1_upper, ''token'' \<mapsto> ''secret1''],
       META = Map.empty\<rparr>
      \<lparr>cache = Map.empty, trace = []\<rparr>
   = (Inr (AnonymousUser, org_1_upper),
      \<lparr>cache = [pk_1 \<mapsto> ''secret1''],
       trace = [CacheGet ''uuid'', SettingsGet org_1_upper ''secret1'',
                CacheSet pk_1 ''secret1'']\<rparr>)"
  by (simp add: authenticate_def check_organization_def get_uuid_token_def cache_get_def
        objects_get_def cache_set_def)

text \<open>
  C1. The request presents the identifier \<^verbatim>\<open>not-a-uuid\<close> with a token; nothing is cached
  or stored for that identifier, so the token does not match. The lookup refuses the
  identifier with a \<open>CoreValidationError\<close>, which the \<^verbatim>\<open>except\<close> clause does not catch:
  the outcome of \<^verbatim>\<open>authenticate\<close> is that error, not \<open>AuthenticationFailed\<close>.
\<close>

theorem non_uuid_identifier_raises_validation_error:
  "authenticate example_to_python [settings_1, settings_2]
      \<lparr>data = Map.empty, GET = [''uuid'' \<mapsto> ''not-a-uuid'', ''token'' \<mapsto> ''secret2''], META = Map.empty\<rparr>
      \<lparr>cache = Map.empty, trace = []\<rparr>
   = (Inl (CoreValidationError ''not-a-uuid''),
      \<lparr>cache = Map.empty,
       trace = [CacheGet ''uuid'', SettingsGet ''not-a-uuid'' ''secret2'']\<rparr>)"
  by (simp add: authenticate_def check_organization_def get_uuid_token_def cache_get_def
        objects_get_def)

text \<open>
  C2. The cache already holds the token of the first organization, and the request
  presents that valid pair. The authentication succeeds, but the cache is read under the
  literal key \<^verbatim>\<open>'uuid'\<close>, which is absent, so the settings table is queried all the same:
  the trace is a read of \<^verbatim>\<open>'uuid'\<close>, the query, and a write under the \<^verbatim>\<open>pk\<close> of the row.
\<close>

theorem warm_cache_still_queries_store:
  "authenticate example_to_python [settings_1]
      \<lparr>data = Map.empty, GET = [''uuid'' \<mapsto> org_1, ''token'' \<mapsto> ''secret1''], META = Map.empty\<rparr>
      \<lparr>cache = [org_1 \<mapsto> ''secret1''], trace = []\<rparr>
   = (Inr (AnonymousUser, org_1),
      \<lparr>cache = [org_1 \<mapsto> ''secret1'', pk_1 \<mapsto> ''secret1''],
       trace = [CacheGet ''uuid'', SettingsGet org_1 ''secret1'', CacheSet pk_1 ''secret1'']\<rparr>)"
  by (simp add: authenticate_def check_organization_def get_uuid_token_def cache_get_def
        objects_get_def cache_set_def)

text \<open>
  C3. The cache is empty and the request presents the valid pair of the first
  organization. The authentication succeeds and writes the token under the primary key of
  the settings row; the cache has no entry for the organization afterwards.
\<close>

theorem cold_cache_written_under_pk:
  "fst (authenticate example_to_python [settings_1]
      \<lparr>data = Map.empty, GET = [''uuid'' \<mapsto> org_1, ''token'' \<mapsto> ''secret1''], META = Map.empty\<rparr>
      \<lparr>cache = Map.empty, trace = []\<rparr>) = Inr (AnonymousUser, org_1) \<and>
   cache (snd (authenticate example_to_python [settings_1]
      \<lparr>data = Map.empty, GET = [''uuid'' \<mapsto> org_1, ''token'' \<mapsto> ''secret1''], META = Map.empty\<rparr>
      \<lparr>cache = Map.empty, trace = []\<rparr>)) org_1 = None \<and>
   cache (snd (authenticate example_to_python [settings_1]
      \<lparr>data = Map.empty, GET = [''uuid'' \<mapsto> org_1, ''token'' \<mapsto> ''secret1''], META = Map.empty\<rparr>
      \<lparr>cache = Map.empty, trace = []\<rparr>)) pk_1 = Some ''secret1''"
  by (simp add: authenticate_def check_organization_def get_uuid_token_def cache_get_def
        objects_get_def cache_set_def)

text \<open>
  The other way a valid pair with no entry of its own fails: once anything truthy is
  cached under the literal key \<^verbatim>\<open>'uuid'\<close>, the settings table is no longer consulted and
  the missing entry counts as a mismatch, here even with a row whose \<^verbatim>\<open>pk\<close> is its
  organization.
\<close>

lemma sentinel_present_rejects_valid_pair:
  "authenticate example_to_python
      [\<lparr>pk = org_1, organization = org_1, token = ''secret1''\<rparr>]
      \<lparr>data = Map.empty, GET = [''uuid'' \<mapsto> org_1, ''token'' \<mapsto> ''secret1''], META = Map.empty\<rparr>
      \<lparr>cache = [''uuid'' \<mapsto> ''x''], trace = []\<rparr>
   = (Inl (AuthenticationFailed TOKEN_AUTH_FAILED),
      \<lparr>cache = [''uuid'' \<mapsto> ''x''], trace = [CacheGet ''uuid'', CacheGet org_1]\<rparr>)"
  by (simp add: authenticate_def check_organization_def get_uuid_token_def cache_get_def
        objects_get_def cache_set_def)

text \<open>
  C4. A request whose body has an \<^verbatim>\<open>organization\<close> field is rejected with
  \<open>AuthenticationFailed\<close>, whatever its query parameters and headers are (also a header
  that would not parse), and the state is returned as it was: no read or write of the cache
  and no query of the settings table is recorded.
\<close>

theorem explicit_organization_rejected:
  assumes "data req ''organization'' \<noteq> None"
  shows "authenticate to_python rows req s =
    (Inl (AuthenticationFailed ''setting the organization parameter explicitly is not allowed''), s)"
  using assms by (simp add: authenticate_def check_organization_def)

theorem explicit_organization_rejected_witness:
  "authenticate example_to_python [settings_1]
      \<lparr>data = [''organization'' \<mapsto> org_2],
       GET = [''uuid'' \<mapsto> org_1, ''token'' \<mapsto> ''secret1''], META = Map.empty\<rparr>
      \<lparr>cache = Map.empty, trace = []\<rparr>
   = (Inl (AuthenticationFailed ''setting the organization parameter explicitly is not allowed''),
      \<lparr>cache = Map.empty, trace = []\<rparr>)"
  by (rule explicit_organization_rejected) simp

section \<open>Parsing the credentials\<close>

text \<open>
  C9. An \<^verbatim>\<open>Authorization\<close> header with fewer than three space-separated parts makes
  \<^verbatim>\<open>get_uuid_token\<close> raise \<open>ParseError\<close>, whatever the query parameters are. In
  \<^verbatim>\<open>authenticate\<close> the parser runs after \<^verbatim>\<open>check_organization\<close>: for a body without
  an \<^verbatim>\<open>organization\<close> field the \<open>ParseError\<close> is the outcome of the authentication,
  and nothing is read from the cache or the settings table.
\<close>

theorem malformed_header_parse_error:
  assumes "META req ''HTTP_AUTHORIZATION'' = Some h"
    and "length (str_split (CHR '' '') h) < 3"
  shows "get_uuid_token req = Inl (ParseError ''Invalid token'') \<and>
         (data req ''organization'' = None \<longrightarrow>
            authenticate to_python rows req s = (Inl (ParseError ''Invalid token''), s))"
proof -
  have g: "get_uuid_token req = Inl (ParseError ''Invalid token'')"
    using assms by (simp add: get_uuid_token_def index_def Let_def split: option.splits)
  show ?thesis using g by (simp add: authenticate_parse_error)
qed

text \<open>The header \<^verbatim>\<open>Token abc\<close>, beside query parameters that are valid credentials.\<close>

theorem malformed_header_parse_error_witness:
  "get_uuid_token
      \<lparr>data = Map.empty, GET = [''uuid'' \<mapsto> org_1, ''token'' \<mapsto> ''secret1''],
       META = [''HTTP_AUTHORIZATION'' \<mapsto> ''Token abc'']\<rparr>
     = Inl (ParseError ''Invalid token'') \<and>
   authenticate example_to_python [settings_1]
      \<lparr>data = Map.empty, GET = [''uuid'' \<mapsto> org_1, ''token'' \<mapsto> ''secret1''],
       META = [''HTTP_AUTHORIZATION'' \<mapsto> ''Token abc'']\<rparr>
      \<lparr>cache = Map.empty, trace = []\<rparr>
     = (Inl (ParseError ''Invalid token''), \<lparr>cache = Map.empty, trace = []\<rparr>)"
  using malformed_header_parse_error
    [of "\<lparr>data = Map.empty, GET = [''uuid'' \<mapsto> org_1, ''token'' \<mapsto> ''secret1''],
          META = [''HTTP_AUTHORIZATION'' \<mapsto> ''Token abc'']\<rparr>"
        "''Token abc''"
        example_to_python
        "[settings_1]"
        "\<lparr>cache = Map.empty, trace = []\<rparr>"]
  by simp

text \<open>
  C10. With an \<^verbatim>\<open>Authorization\<close> header of at least three space-separated parts,
  \<^verbatim>\<open>get_uuid_token\<close> returns the second and the third part. The result is a function of
  these two parts alone: the query parameters, the first part and the parts after the
  third have no influence on it.
\<close>

theorem header_overrides_query_parameters:
  assumes "META req ''HTTP_AUTHORIZATION'' = Some h"
    and "3 \<le> length (str_split (CHR '' '') h)"
  shows "get_uuid_token req =
           Inr (Some (str_split (CHR '' '') h ! 1), Some (str_split (CHR '' '') h ! 2))"
  using assms by (simp add: get_uuid_token_def index_def Let_def)

theorem header_overrides_query_parameters_witness:
  "get_uuid_token \<lparr>data = Map.empty, GET = [''uuid'' \<mapsto> ''X'', ''token'' \<mapsto> ''Y''],
                META = [''HTTP_AUTHORIZATION'' \<mapsto> ''Bearer U1 secret1 extra'']\<rparr>
     = Inr (Some ''U1'', Some ''secret1'')"
  using header_overrides_query_parameters
    [of "\<lparr>data = Map.empty, GET = [''uuid'' \<mapsto> ''X'', ''token'' \<mapsto> ''Y''],
          META = [''HTTP_AUTHORIZATION'' \<mapsto> ''Bearer U1 secret1 extra'']\<rparr>"
        "''Bearer U1 secret1 extra''"]
  by simp

section \<open>Scoping by the authenticated organization\<close>

text \<open>
  C5. When the lookup of the base class finds a user that has no membership row for the
  authenticated organization, \<^verbatim>\<open>AuthorizeView.get_user\<close> returns \<open>None\<close>, which is also
  what it returns when the lookup finds no user.
\<close>

theorem non_member_is_not_found:
  assumes "found req = Some u"
    and "\<forall>m \<in> set org_users. \<not> (user_id m = user_pk u \<and> organization_id m = auth req)"
    and "missing req = None"
  shows "get_user found org_users req = None \<and>
         get_user found org_users req = get_user missing org_users req"
proof -
  have "filter (\<lambda>m. user_id m = user_pk u \<and> organization_id m = auth req) org_users = []"
    using assms(2) by (auto simp: filter_empty_conv)
  then show ?thesis using assms(1,3) by (simp add: get_user_def)
qed

text \<open>A member of organization \<open>A\<close>, looked up by a request authenticated for \<open>B\<close>.\<close>

theorem non_member_is_not_found_witness:
  "get_user (\<lambda>_. Some \<lparr>user_pk = ''7'', username = ''alice'', organizations_pk = [''A'']\<rparr>)
      [\<lparr>user_id = ''7'', organization_id = ''A''\<rparr>]
      \<lparr>data = Map.empty, GET = Map.empty, META = Map.empty, auth = ''B''\<rparr> = None \<and>
   get_user (\<lambda>_. Some \<lparr>user_pk = ''7'', username = ''alice'', organizations_pk = [''A'']\<rparr>)
      [\<lparr>user_id = ''7'', organization_id = ''A''\<rparr>]
      \<lparr>data = Map.empty, GET = Map.empty, META = Map.empty, auth = ''B''\<rparr>
   = get_user (\<lambda>_. None)
      [\<lparr>user_id = ''7'', organization_id = ''A''\<rparr>]
      \<lparr>data = Map.empty, GET = Map.empty, META = Map.empty, auth = ''B''\<rparr>"
  by (rule non_member_is_not_found
        [where u = "\<lparr>user_pk = ''7'', username = ''alice'', organizations_pk = [''A'']\<rparr>"])
     simp_all

text \<open>
  C6. Every row of \<^verbatim>\<open>AccountingView.get_queryset\<close> has the organization the request was
  authenticated for, and so none has any other organization. The base queryset and the
  rest of the request are arbitrary.
\<close>

theorem accounting_rows_of_authenticated_organization:
  "\<forall>r \<in> set (get_queryset super_get_queryset req).
      acct_organization r = auth req \<and> (\<forall>B. B \<noteq> auth req \<longrightarrow> acct_organization r \<noteq> B)"
  by (simp add: get_queryset_def)

text \<open>Rows of \<open>A\<close> and of \<open>B\<close>, listed by a request authenticated for \<open>A\<close>.\<close>

theorem accounting_rows_of_authenticated_organization_witness:
  "list_all (\<lambda>r. acct_organization r = ''A'' \<and> acct_organization r \<noteq> ''B'')
     (get_queryset
        [\<lparr>unique_id = ''s1'', acct_organization = ''A''\<rparr>,
         \<lparr>unique_id = ''s2'', acct_organization = ''B''\<rparr>,
         \<lparr>unique_id = ''s3'', acct_organization = ''A''\<rparr>]
        \<lparr>data = Map.empty, GET = Map.empty, META = Map.empty, auth = ''A''\<rparr>)"
  using accounting_rows_of_authenticated_organization
    [of "[\<lparr>unique_id = ''s1'', acct_organization = ''A''\<rparr>,
          \<lparr>unique_id = ''s2'', acct_organization = ''B''\<rparr>,
          \<lparr>unique_id = ''s3'', acct_organization = ''A''\<rparr>]"
        "\<lparr>data = Map.empty, GET = Map.empty, META = Map.empty, auth = ''A''\<rparr>"]
  unfolding list_all_iff by auto

section \<open>Registration and login under an organization slug\<close>

text \<open>
  C7. The slug resolves to an organization, the serializer accepts the credentials, and
  the organization is not among those of the user. Then the token view raises a
  \<open>ValidationError\<close> whose only message quotes the username and the slug; the message is
  logged as a warning, it is not the serializer's message for credentials that do not log
  in, and the token table is left as it was.
\<close>

theorem login_non_member_validation_error:
  assumes "dispatch (organizations db) slug_kwarg = Inr org"
    and "AuthTokenSerializer req = Inr u"
    and "org_pk org \<notin> set (organizations_pk u)"
  shows "\<exists>message.
           message = ''User '' @ [CHR 0x22] @ username u @ [CHR 0x22] @
                     '' is not member of '' @ [CHR 0x22] @ slug_kwarg @ [CHR 0x22] \<and>
           obtain_auth_token AuthTokenSerializer new_key req slug_kwarg db =
             (Inl (ValidationError [(''non_field_errors'', [message])]),
              db\<lparr>warnings := warnings db @ [message]\<rparr>) \<and>
           message \<noteq> UNABLE_TO_LOG_IN \<and>
           tokens (snd (obtain_auth_token AuthTokenSerializer new_key req slug_kwarg db)) = tokens db"
  using assms
  by (simp add: obtain_auth_token_def post_def Let_def UNABLE_TO_LOG_IN_def)

text \<open>A member of \<open>org-a\<close> alone logs in under the slug \<open>org-b\<close>.\<close>

theorem login_non_member_validation_error_witness:
  "obtain_auth_token
      (\<lambda>_. Inr \<lparr>user_pk = ''7'', username = ''alice'', organizations_pk = [''A'']\<rparr>)
      ''k1''
      \<lparr>data = [''username'' \<mapsto> ''alice'', ''password'' \<mapsto> ''pw''], GET = Map.empty, META = Map.empty\<rparr>
      ''org-b''
      \<lparr>organizations = [\<lparr>org_pk = ''A'', slug = ''org-a''\<rparr>, \<lparr>org_pk = ''B'', slug = ''org-b''\<rparr>],
       organization_users = [\<lparr>user_id = ''7'', organization_id = ''A''\<rparr>],
       tokens = [], warnings = []\<rparr>
   = (Inl (ValidationError
        [(''non_field_errors'',
          [''User '' @ [CHR 0x22] @ ''alice'' @ [CHR 0x22] @ '' is not member of '' @
           [CHR 0x22] @ ''org-b'' @ [CHR 0x22]])]),
      \<lparr>organizations = [\<lparr>org_pk = ''A'', slug = ''org-a''\<rparr>, \<lparr>org_pk = ''B'', slug = ''org-b''\<rparr>],
       organization_users = [\<lparr>user_id = ''7'', organization_id = ''A''\<rparr>],
       tokens = [],
       warnings = [''User '' @ [CHR 0x22] @ ''alice'' @ [CHR 0x22] @ '' is not member of '' @
                   [CHR 0x22] @ ''org-b'' @ [CHR 0x22]]\<rparr>)"
  using login_non_member_validation_error
    [of "\<lparr>organizations = [\<lparr>org_pk = ''A'', slug = ''org-a''\<rparr>, \<lparr>org_pk = ''B'', slug = ''org-b''\<rparr>],
          organization_users = [\<lparr>user_id = ''7'', organization_id = ''A''\<rparr>],
          tokens = [], warnings = []\<rparr>"
        "''org-b''" "\<lparr>org_pk = ''B'', slug = ''org-b''\<rparr>"
        "\<lambda>_. Inr \<lparr>user_pk = ''7'', username = ''alice'', organizations_pk = [''A'']\<rparr>"
        "\<lparr>data = [''username'' \<mapsto> ''alice'', ''password'' \<mapsto> ''pw''], GET = Map.empty, META = Map.empty\<rparr>"
        "\<lparr>user_pk = ''7'', username = ''alice'', organizations_pk = [''A'']\<rparr>"
        "''k1''"]
  by (simp add: dispatch_def)

text \<open>
  What \<^verbatim>\<open>dispatch\<close> resolves a slug to: an organization of the table that has this
  slug, and the only one that has it.
\<close>

lemma dispatch_slug:
  assumes "dispatch orgs slug_kwarg = Inr org"
  shows "filter (\<lambda>org'. slug org' = slug_kwarg) orgs = [org]"
  using assms by (auto simp: dispatch_def split: list.splits)

lemma dispatch_resolves:
  assumes "dispatch orgs slug_kwarg = Inr org"
  shows "org \<in> set orgs" and "slug org = slug_kwarg"
    and "\<forall>org' \<in> set orgs. slug org' = slug_kwarg \<longrightarrow> org' = org"
proof -
  have f: "filter (\<lambda>org'. slug org' = slug_kwarg) orgs = [org]"
    by (rule dispatch_slug [OF assms])
  have m: "org \<in> set (filter (\<lambda>org'. slug org' = slug_kwarg) orgs)"
    by (simp add: f)
  show "org \<in> set orgs" and "slug org = slug_kwarg" using m by simp_all
  show "\<forall>org' \<in> set orgs. slug org' = slug_kwarg \<longrightarrow> org' = org"
  proof (intro ballI impI)
    fix org' assume "org' \<in> set orgs" and "slug org' = slug_kwarg"
    then have "org' \<in> set (filter (\<lambda>org'. slug org' = slug_kwarg) orgs)" by simp
    then show "org' = org" by (simp add: f)
  qed
qed

text \<open>
  C8. When the registration view under the slug \<open>S\<close> returns a user, there is an
  organization of the table whose slug is \<open>S\<close>, it is the only one with that slug, it is
  the one \<^verbatim>\<open>dispatch\<close> resolved, and the membership table returned with the user holds
  the row of that user and that organization.
\<close>

theorem registration_adds_membership:
  assumes "register super_perform_create slug_kwarg db = (Inr u, db')"
  shows "\<exists>org. dispatch (organizations db) slug_kwarg = Inr org \<and>
           org \<in> set (organizations db) \<and>
           slug org = slug_kwarg \<and>
           (\<forall>org' \<in> set (organizations db). slug org' = slug_kwarg \<longrightarrow> org' = org) \<and>
           \<lparr>user_id = user_pk u, organization_id = org_pk org\<rparr> \<in> set (organization_users db')"
proof (cases "dispatch (organizations db) slug_kwarg")
  case (Inl e)
  with assms show ?thesis by (simp add: register_def)
next
  case (Inr org)
  have row: "\<lparr>user_id = user_pk u, organization_id = org_pk org\<rparr> \<in> set (organization_users db')"
    using assms Inr
    by (auto simp: register_def perform_create_def add_user_def split: sum.splits prod.splits)
  show ?thesis
    using Inr row dispatch_resolves [OF Inr] by blast
qed

text \<open>
  A registration under the slug \<open>org-b\<close>, with the organization \<open>org-a\<close> first in the
  table: the user joins \<open>B\<close>, and does not join \<open>A\<close>.
\<close>

theorem registration_adds_membership_witness:
  "\<lparr>user_id = ''7'', organization_id = ''B''\<rparr> \<in> set (organization_users
      (snd (register
         (\<lambda>db. (Inr \<lparr>user_pk = ''7'', username = ''alice'', organizations_pk = []\<rparr>, db))
         ''org-b''
         \<lparr>organizations = [\<lparr>org_pk = ''A'', slug = ''org-a''\<rparr>, \<lparr>org_pk = ''B'', slug = ''org-b''\<rparr>],
          organization_users = [], tokens = [], warnings = []\<rparr>))) \<and>
   \<lparr>user_id = ''7'', organization_id = ''A''\<rparr> \<notin> set (organization_users
      (snd (register
         (\<lambda>db. (Inr \<lparr>user_pk = ''7'', username = ''alice'', organizations_pk = []\<rparr>, db))
         ''org-b''
         \<lparr>organizations = [\<lparr>org_pk = ''A'', slug = ''org-a''\<rparr>, \<lparr>org_pk = ''B'', slug = ''org-b''\<rparr>],
          organization_users = [], tokens = [], warnings = []\<rparr>)))"
proof -
  let ?f = "\<lambda>db::database. (Inr \<lparr>user_pk = ''7'', username = ''alice'', organizations_pk = []\<rparr>
                               :: error + User, db)"
  let ?db = "\<lparr>organizations = [\<lparr>org_pk = ''A'', slug = ''org-a''\<rparr>, \<lparr>org_pk = ''B'', slug = ''org-b''\<rparr>],
             organization_users = [], tokens = [], warnings = []\<rparr>"
  let ?u = "\<lparr>user_pk = ''7'', username = ''alice'', organizations_pk = []\<rparr>"
  have run: "register ?f ''org-b'' ?db = (Inr ?u, snd (register ?f ''org-b'' ?db))"
    by (simp add: register_def perform_create_def dispatch_def)
  from registration_adds_membership [OF run]
  obtain org where mem: "org \<in> set (organizations ?db)" and sl: "slug org = ''org-b''"
    and row: "\<lparr>user_id = user_pk ?u, organization_id = org_pk org\<rparr>
                \<in> set (organization_users (snd (register ?f ''org-b'' ?db)))"
    by blast
  from mem sl have "org = \<lparr>org_pk = ''B'', slug = ''org-b''\<rparr>" by auto
  with row have joined: "\<lparr>user_id = ''7'', organization_id = ''B''\<rparr>
      \<in> set (organization_users (snd (register ?f ''org-b'' ?db)))" by simp
  have other: "\<lparr>user_id = ''7'', organization_id = ''A''\<rparr>
      \<notin> set (organization_users (snd (register ?f ''org-b'' ?db)))"
    by (simp add: register_def perform_create_def dispatch_def add_user_def)
  from joined other show ?thesis by simp
qed

end
